theory Spec2Isabelle
  imports Complex_Main "HOL-Library.Sublist"
begin

section \<open>Python values\<close>

text \<open>
  A Python \<^verbatim>\<open>str\<close> is a sequence of Unicode code points; a code point is a natural
  number. \<open>str\<close> reads an ASCII literal as such a sequence.
\<close>

type_synonym pystr = "nat list"

definition str :: "string \<Rightarrow> pystr" where
  "str s = map of_char s"

text \<open>
  The exceptions the notebooks can meet: \<^verbatim>\<open>IndexError\<close> from subscripting,
  \<^verbatim>\<open>ValueError\<close> from formatting a non-number with \<^verbatim>\<open>:.4f\<close>, the two ways in which
  building the project client fails, and whatever else a call into the vendor SDK or the
  remote service raises (kept opaque, with its message).
\<close>

datatype error =
  IndexError | ValueError | ConfigurationError | CredentialError | SdkError string

text \<open>
  Subscripting \<^verbatim>\<open>xs[i]\<close>: a negative index counts from the end, and an index outside
  \<open>-len \<le> i < len\<close> raises \<^verbatim>\<open>IndexError\<close>.
\<close>

definition in_range :: "'a list \<Rightarrow> int \<Rightarrow> bool" where
  "in_range xs i \<longleftrightarrow> - int (length xs) \<le> i \<and> i < int (length xs)"

definition py_index :: "'a list \<Rightarrow> int \<Rightarrow> error + 'a" where
  "py_index xs i =
     (if in_range xs i
      then Inr (xs ! nat (if 0 \<le> i then i else int (length xs) + i))
      else Inl IndexError)"

text \<open>
  \<^verbatim>\<open>str.isspace\<close> on one code point, and \<^verbatim>\<open>str.strip()\<close>, which removes the leading and the
  trailing run of such code points.
\<close>

definition isspace :: "nat \<Rightarrow> bool" where
  "isspace c \<longleftrightarrow>
     (9 \<le> c \<and> c \<le> 13) \<or> (28 \<le> c \<and> c \<le> 32) \<or> c = 133 \<or> c = 160 \<or> c = 5760 \<or>
     (8192 \<le> c \<and> c \<le> 8202) \<or> c = 8232 \<or> c = 8233 \<or> c = 8239 \<or> c = 8287 \<or> c = 12288"

definition strip :: "pystr \<Rightarrow> pystr" where
  "strip s = rev (dropWhile isspace (rev (dropWhile isspace s)))"


section \<open>The connection string (1-authentication.ipynb)\<close>

definition semicolon :: nat where
  "semicolon = of_char CHR '';''"

text \<open>
  \<^verbatim>\<open>s.split(';')\<close>: the text up to the first separator, then the split of what follows
  it. A string without a separator, the empty string too, gives one field.
\<close>

function str_split :: "pystr \<Rightarrow> pystr list" where
  "str_split s =
     takeWhile (\<lambda>c. c \<noteq> semicolon) s #
     (case dropWhile (\<lambda>c. c \<noteq> semicolon) s of
        [] \<Rightarrow> []
      | sep # rest \<Rightarrow> str_split rest)"
  by pat_completeness auto
termination
proof (relation "measure length")
  fix s :: pystr and sep rest
  assume "dropWhile (\<lambda>c. c \<noteq> semicolon) s = sep # rest"
  then have "length (sep # rest) \<le> length s"
    by (metis length_dropWhile_le)
  then show "(rest, s) \<in> measure length" by simp
qed simp

declare str_split.simps [simp del]

text \<open>
  \<^verbatim>\<open>subscription_id = conn_str.split(';')[1] if conn_str else None\<close>, where
  \<^verbatim>\<open>conn_str = os.getenv("PROJECT_CONNECTION_STRING")\<close> is \<^verbatim>\<open>None\<close> when the variable is
  absent. \<^verbatim>\<open>None\<close> and the empty string are both falsy.
\<close>

definition subscription_id :: "pystr option \<Rightarrow> error + pystr option" where
  "subscription_id conn_str =
     (case conn_str of
        None \<Rightarrow> Inr None
      | Some s \<Rightarrow>
          if s = [] then Inr None
          else (case py_index (str_split s) 1 of
                  Inl e \<Rightarrow> Inl e
                | Inr field \<Rightarrow> Inr (Some field)))"

text \<open>
  The rest of the cell: a truthy identifier is handed to \<^verbatim>\<open>az account set\<close> and reported,
  anything else prints the warning that no identifier could be read.
\<close>

datatype notice = SubscriptionSet pystr | SubscriptionMissing

definition set_subscription :: "pystr option \<Rightarrow> error + notice" where
  "set_subscription conn_str =
     (case subscription_id conn_str of
        Inl e \<Rightarrow> Inl e
      | Inr None \<Rightarrow> Inr SubscriptionMissing
      | Inr (Some sid) \<Rightarrow> Inr (if sid = [] then SubscriptionMissing else SubscriptionSet sid))"

text \<open>
  A semicolon-delimited connection string is the join of its fields; this is what
  \<^verbatim>\<open>';'.join(fields)\<close> builds.
\<close>

fun join :: "pystr list \<Rightarrow> pystr" where
  "join [] = []"
| "join [f] = f"
| "join (f # g # fs) = f @ semicolon # join (g # fs)"


section \<open>Environment loading (2-embeddings.ipynb and the DeepSeek-R1 notebook)\<close>

text \<open>
  \<^verbatim>\<open>os.environ\<close> after \<^verbatim>\<open>load_dotenv\<close>, as a map from names to values.
  \<^verbatim>\<open>os.getenv(k)\<close> is \<^verbatim>\<open>None\<close> for an absent name; \<^verbatim>\<open>os.environ.get(k, d)\<close> is \<open>d\<close>.
\<close>

type_synonym environ = "string \<rightharpoonup> pystr"

definition os_getenv :: "environ \<Rightarrow> string \<Rightarrow> pystr option" where
  "os_getenv env k = env k"

definition os_environ_get :: "environ \<Rightarrow> string \<Rightarrow> pystr \<Rightarrow> pystr" where
  "os_environ_get env k d = (case env k of None \<Rightarrow> d | Some v \<Rightarrow> v)"

record embeddings_settings =
  PROJECT_CONNECTION_STRING :: pystr
  TEXT_EMBEDDING_MODEL :: pystr
  IMAGE_EMBEDDING_MODEL :: pystr

text \<open>
  The three assignments under \<^verbatim>\<open># Retrieve from environment or fallback\<close>. None of them
  raises, so the step always ends in \<open>Inr\<close>.
\<close>

definition load_embeddings_settings :: "environ \<Rightarrow> error + embeddings_settings" where
  "load_embeddings_settings env = Inr
     \<lparr> PROJECT_CONNECTION_STRING =
         os_environ_get env ''PROJECT_CONNECTION_STRING'' (str ''<your-connection-string>''),
       TEXT_EMBEDDING_MODEL =
         os_environ_get env ''TEXT_EMBEDDING_MODEL'' (str ''text-embedding-3-large''),
       IMAGE_EMBEDDING_MODEL =
         os_environ_get env ''IMAGE_EMBEDDING_MODEL'' (str ''Cohere-embed-v3-english'') \<rparr>"

record inference_settings =
  endpoint :: "pystr option"
  key :: "pystr option"
  model_name :: "pystr option"

definition load_inference_settings :: "environ \<Rightarrow> error + inference_settings" where
  "load_inference_settings env = Inr
     \<lparr> endpoint = os_getenv env ''AZURE_INFERENCE_ENDPOINT'',
       key = os_getenv env ''AZURE_INFERENCE_KEY'',
       model_name = os_getenv env ''MODEL_NAME'' \<rparr>"


section \<open>The completion call with reasoning extraction (DeepSeek-R1 notebook)\<close>

definition think_open :: pystr where
  "think_open = str ''<think>''"

definition think_close :: pystr where
  "think_close = str ''</think>''"

text \<open>
  \<^verbatim>\<open>re.search(r"<think>(.*?)</think>(.*)", content, re.DOTALL)\<close>, written out as the
  backtracking search it is. Under \<^verbatim>\<open>DOTALL\<close> the dot matches every code point.

  \<open>lazy_group\<close> is the part of the pattern after the opening marker: the lazy group
  \<^verbatim>\<open>(.*?)\<close> takes no code point if the closing marker follows at once and otherwise one
  more; the greedy group \<^verbatim>\<open>(.*)\<close> then takes everything up to the end of the text.
\<close>

fun lazy_group :: "pystr \<Rightarrow> (pystr \<times> pystr) option" where
  "lazy_group [] = None"
| "lazy_group (c # cs) =
     (if prefix think_close (c # cs)
      then Some ([], drop (length think_close) (c # cs))
      else map_option (\<lambda>(g1, g2). (c # g1, g2)) (lazy_group cs))"

text \<open>A match of the whole pattern that starts at the head of the text.\<close>

definition match_at :: "pystr \<Rightarrow> (pystr \<times> pystr) option" where
  "match_at s =
     (if prefix think_open s then lazy_group (drop (length think_open) s) else None)"

text \<open>\<^verbatim>\<open>re.search\<close> tries the start positions from left to right and keeps the first match.\<close>

fun re_search :: "pystr \<Rightarrow> (pystr \<times> pystr) option" where
  "re_search [] = None"
| "re_search (c # cs) =
     (case match_at (c # cs) of
        Some groups \<Rightarrow> Some groups
      | None \<Rightarrow> re_search cs)"

text \<open>
  \<^verbatim>\<open>plan_trip_with_reasoning\<close> returns either the content string or the dictionary
  \<^verbatim>\<open>{"thinking": ..., "answer": ...}\<close>.
\<close>

datatype trip_result = Content pystr | Reasoning (thinking: pystr) (answer: pystr)

text \<open>
  The lines under \<^verbatim>\<open># Extract reasoning if present\<close>:
  \<^verbatim>\<open>
    if show_thinking:
        match = re.search(...)
        if match:
            return {"thinking": match.group(1).strip(), "answer": match.group(2).strip()}
    return content
  \<close>
\<close>

definition extract_reasoning :: "pystr \<Rightarrow> bool \<Rightarrow> trip_result" where
  "extract_reasoning content show_thinking =
     (if show_thinking
      then (case re_search content of
              Some (g1, g2) \<Rightarrow> Reasoning (strip g1) (strip g2)
            | None \<Rightarrow> Content content)
      else Content content)"

datatype role = System | User

record request =
  messages :: "(role \<times> pystr) list"
  model :: "pystr option"
  temperature :: real
  max_tokens :: nat

definition trip_request :: "inference_settings \<Rightarrow> pystr \<Rightarrow> request" where
  "trip_request settings query =
     \<lparr> messages =
         [(System, str ''You are a travel expert. Provide detailed plans with rationale.''),
          (User, query @ str '' Include hidden gems and safety considerations.'')],
       model = model_name settings,
       temperature = 0.7,
       max_tokens = 1024 \<rparr>"

text \<open>
  \<^verbatim>\<open>client.complete\<close> belongs to the SDK and reaches the remote model, so it is a
  parameter: it raises, or it returns the contents of the response's choices.
  \<^verbatim>\<open>response.choices[0]\<close> raises \<^verbatim>\<open>IndexError\<close> on a response without choices.
\<close>

definition plan_trip_with_reasoning ::
  "(request \<Rightarrow> error + pystr list) \<Rightarrow> inference_settings \<Rightarrow> pystr \<Rightarrow> bool \<Rightarrow> error + trip_result"
where
  "plan_trip_with_reasoning client_complete settings query show_thinking =
     (case client_complete (trip_request settings query) of
        Inl e \<Rightarrow> Inl e
      | Inr choices \<Rightarrow>
          (case py_index choices 0 of
             Inl e \<Rightarrow> Inl e
           | Inr content \<Rightarrow> Inr (extract_reasoning content show_thinking)))"


section \<open>Scoped sub-clients (2-embeddings.ipynb)\<close>

text \<open>
  What a run leaves behind is a log of events: a sub-client entered by a
  \<^verbatim>\<open>with\<close> statement, the same sub-client closed on leaving it, and lines printed.
  The printed text itself is not recorded.
\<close>

datatype client_kind = ChatClient | EmbeddingsClient | ImageEmbeddingsClient

datatype event = Acquired client_kind | Released client_kind | Printed

type_synonym 'a action = "event list \<Rightarrow> (error + 'a) \<times> event list"

text \<open>
  An embedding comes back as a list of floats, or as a string when the service encodes
  it; subscripting the string gives one-code-point strings. The float's value is never
  looked at, only that it is one.
\<close>

datatype entry = FloatEntry real | StrEntry nat

text \<open>
  One entry of \<^verbatim>\<open>response.data\<close>, and a sub-client: its kind and its \<^verbatim>\<open>embed\<close>
  operation, which runs in the SDK and on the service and so is a parameter that returns
  the data of the response or raises.
\<close>

record item =
  index :: int
  embedding :: "entry list"

datatype 'i client =
  Client (kind: client_kind) (embed: "pystr \<Rightarrow> 'i list \<Rightarrow> error + item list")

text \<open>
  \<^verbatim>\<open>with EXPR as c: BODY\<close>. If \<^verbatim>\<open>EXPR\<close> raises, nothing was acquired. Otherwise the
  body runs, the client's exit handler closes it whether the body returned or raised,
  and the body's outcome (an exception too: the handler does not swallow it) is the
  outcome of the statement.
\<close>

definition with_client ::
  "error + 'i client \<Rightarrow> ('i client \<Rightarrow> 'a action) \<Rightarrow> 'a action"
where
  "with_client acquisition body l =
     (case acquisition of
        Inl e \<Rightarrow> (Inl e, l)
      | Inr c \<Rightarrow>
          (case body c (l @ [Acquired (kind c)]) of
             (outcome, l') \<Rightarrow> (outcome, l' @ [Released (kind c)])))"

text \<open>\<^verbatim>\<open>try: BODY except Exception as e: print(..., e)\<close>\<close>

definition try_except_print :: "unit action \<Rightarrow> unit action" where
  "try_except_print body l =
     (case body l of
        (Inl e, l') \<Rightarrow> (Inr (), l' @ [Printed])
      | (Inr u, l') \<Rightarrow> (Inr u, l'))"

text \<open>
  \<^verbatim>\<open>f"{x:.4f}"\<close> formats a float and raises \<^verbatim>\<open>ValueError\<close> on a string. The text it
  builds is not recorded.
\<close>

definition format_4f :: "entry \<Rightarrow> error + unit" where
  "format_4f x = (case x of FloatEntry r \<Rightarrow> Inr () | StrEntry c \<Rightarrow> Inl ValueError)"

text \<open>
  The f-string \<^verbatim>\<open>f"[{vec[0]:.4f}, {vec[1]:.4f}, ..., {vec[-2]:.4f}, {vec[-1]:.4f}]"\<close>:
  the subscripts are read and formatted from left to right, and the first one that
  raises ends the evaluation.
\<close>

fun format_sample :: "entry list \<Rightarrow> int list \<Rightarrow> error + unit" where
  "format_sample vec [] = Inr ()"
| "format_sample vec (j # js) =
     (case py_index vec j of
        Inl e \<Rightarrow> Inl e
      | Inr x \<Rightarrow>
          (case format_4f x of
             Inl e \<Rightarrow> Inl e
           | Inr u \<Rightarrow> format_sample vec js))"

text \<open>
  The loop of the text cell. Each round builds \<^verbatim>\<open>sample_str\<close>, reads
  \<^verbatim>\<open>text_phrases[item.index]\<close> for the line to print, and prints it; an exception in a
  round leaves the loop before that round prints.
\<close>

fun print_text_items :: "pystr list \<Rightarrow> item list \<Rightarrow> unit action" where
  "print_text_items text_phrases [] l = (Inr (), l)"
| "print_text_items text_phrases (it # items) l =
     (case format_sample (embedding it) [0, 1, - 2, - 1] of
        Inl e \<Rightarrow> (Inl e, l)
      | Inr u \<Rightarrow>
          (case py_index text_phrases (index it) of
             Inl e \<Rightarrow> (Inl e, l)
           | Inr phrase \<Rightarrow> print_text_items text_phrases items (l @ [Printed])))"

definition text_embeddings_cell ::
  "error + pystr client \<Rightarrow> embeddings_settings \<Rightarrow> pystr list \<Rightarrow> unit action"
where
  "text_embeddings_cell get_embeddings_client settings text_phrases =
     try_except_print
       (with_client get_embeddings_client
          (\<lambda>embed_client l.
             case embed embed_client (TEXT_EMBEDDING_MODEL settings) text_phrases of
               Inl e \<Rightarrow> (Inl e, l)
             | Inr data \<Rightarrow> print_text_items text_phrases data l))"

definition TEMPLATE_SYSTEM :: pystr where
  "TEMPLATE_SYSTEM =
     str ''You are HealthFitGPT, a fitness guidance model.'' @ [10] @
     str ''Please focus on healthy advice and disclaim you'' @ [39] @
     str ''re not a doctor.'' @ [10, 10] @
     str ''User message:''"

text \<open>
  \<^verbatim>\<open>embed_with_template\<close>: the call is inside the \<^verbatim>\<open>with\<close> block, the \<^verbatim>\<open>return
  rsp.data[0].embedding\<close> after it. No exception is caught here.
\<close>

definition embed_with_template ::
  "error + pystr client \<Rightarrow> embeddings_settings \<Rightarrow> pystr \<Rightarrow> (entry list) action"
where
  "embed_with_template get_embeddings_client settings user_text l =
     (case with_client get_embeddings_client
             (\<lambda>embed_client l'.
                (embed embed_client (TEXT_EMBEDDING_MODEL settings)
                   [TEMPLATE_SYSTEM @ str '' '' @ user_text], l')) l of
        (Inl e, l1) \<Rightarrow> (Inl e, l1)
      | (Inr data, l1) \<Rightarrow>
          (case py_index data 0 of
             Inl e \<Rightarrow> (Inl e, l1)
           | Inr it \<Rightarrow> (Inr (embedding it), l1)))"

text \<open>The loop of the image cell: each round builds \<^verbatim>\<open>snippet\<close> and prints one line.\<close>

fun print_image_items :: "item list \<Rightarrow> unit action" where
  "print_image_items [] l = (Inr (), l)"
| "print_image_items (it # items) l =
     (case format_sample (embedding it) [0, 1, - 2, - 1] of
        Inl e \<Rightarrow> (Inl e, l)
      | Inr u \<Rightarrow> print_image_items items (l @ [Printed]))"

text \<open>
  The image cell. \<^verbatim>\<open>ImageEmbeddingInput.load\<close> reads a file inside the block and may
  raise, so its outcome is a parameter as well.
\<close>

definition image_embeddings_cell ::
  "error + 'i client \<Rightarrow> error + 'i \<Rightarrow> embeddings_settings \<Rightarrow> unit action"
where
  "image_embeddings_cell get_image_embeddings_client load settings =
     try_except_print
       (with_client get_image_embeddings_client
          (\<lambda>img_embed_client l.
             case load of
               Inl e \<Rightarrow> (Inl e, l)
             | Inr img_input \<Rightarrow>
                 (case embed img_embed_client (IMAGE_EMBEDDING_MODEL settings) [img_input] of
                    Inl e \<Rightarrow> (Inl e, l)
                  | Inr data \<Rightarrow> print_image_items data l)))"

text \<open>The acquisitions and releases of one kind of sub-client, in the order they happened.\<close>

definition lifecycle :: "client_kind \<Rightarrow> event list \<Rightarrow> event list" where
  "lifecycle k l = filter (\<lambda>e. e = Acquired k \<or> e = Released k) l"


section \<open>Credential resolution\<close>

text \<open>
  Modelled from the spec: the notebooks only construct \<^verbatim>\<open>DefaultAzureCredential()\<close>; the
  chain that \<^verbatim>\<open>resolve()\<close> walks is inside the identity library and is not among the
  sources. From the spec: a credential attempt has a strategy name and an executor that
  produces a token or fails; a token is an opaque bearer string plus an expiry.
\<close>

record token =
  bearer :: pystr
  expiry :: nat

record strategy =
  strategy_name :: string
  executor :: "unit \<Rightarrow> string + token"

text \<open>
  Modelled from the spec: \<^verbatim>\<open>resolve()\<close> is not among the sources. The spec: the
  strategies are tried in their fixed order; a failing attempt is logged, not raised, and
  the resolver advances to the next strategy; the first success is returned; if every
  strategy fails, the result is an aggregate error enumerating all per-strategy
  failures. The second component lists the strategies whose executor was invoked.
\<close>

fun resolve :: "strategy list \<Rightarrow> ((string \<times> string) list + token) \<times> string list" where
  "resolve [] = (Inl [], [])"
| "resolve (s # ss) =
     (case executor s () of
        Inr tok \<Rightarrow> (Inr tok, [strategy_name s])
      | Inl failure \<Rightarrow>
          (case resolve ss of
             (Inl failures, invoked) \<Rightarrow>
               (Inl ((strategy_name s, failure) # failures), strategy_name s # invoked)
           | (Inr tok, invoked) \<Rightarrow> (Inr tok, strategy_name s # invoked)))"


section \<open>Listing connections\<close>

text \<open>
  Modelled from the spec: \<^verbatim>\<open>client.connections.list\<close> is an SDK operation answered by
  the service and is not among the sources; the notebooks only call it. From the spec: a
  connection has an id, a type from an enumerated category, and an optional embedded
  credential. The categories are the three the notebooks name.
\<close>

datatype connection_type = AZURE_OPEN_AI | AZURE_AI_SERVICES | AZURE_AI_SEARCH

record connection =
  conn_id :: pystr
  conn_type :: connection_type
  credential :: "pystr option"

text \<open>
  Modelled from the spec: \<^verbatim>\<open>list_connections(type_filter?)\<close> is not among the sources.
  The spec: it returns all connections, or only those matching a requested type, and
  produces an empty sequence when no matches exist. It is written as the scan over the
  registered connections.
\<close>

fun list_connections :: "connection_type option \<Rightarrow> connection list \<Rightarrow> connection list" where
  "list_connections type_filter [] = []"
| "list_connections type_filter (c # cs) =
     (case type_filter of
        None \<Rightarrow> c # list_connections type_filter cs
      | Some t \<Rightarrow>
          if conn_type c = t then c # list_connections type_filter cs
          else list_connections type_filter cs)"



section \<open>Building the project client (2-environment_setup.ipynb, 2-embeddings.ipynb)\<close>

text \<open>
  Modelled from the spec: \<^verbatim>\<open>AIProjectClient.from_connection_string\<close> is an SDK
  operation and is not among the sources; the notebooks only call it. From the spec: the
  project client is constructed from a connection string and a resolved credential, and
  construction fails fast if the connection string is malformed (missing required
  delimited fields) or the credential is invalid; a missing or malformed environment
  value is a configuration error. The spec does not give the number of required fields,
  which is a parameter; an absent connection string is \<open>None\<close> and an invalid credential
  is \<open>None\<close>.
\<close>

record project_client =
  connection_fields :: "pystr list"
  held_credential :: token

definition from_connection_string ::
  "nat \<Rightarrow> pystr option \<Rightarrow> token option \<Rightarrow> error + project_client"
where
  "from_connection_string required conn_str cred =
     (case conn_str of
        None \<Rightarrow> Inl ConfigurationError
      | Some s \<Rightarrow>
          if length (str_split s) < required then Inl ConfigurationError
          else (case cred of
                  None \<Rightarrow> Inl CredentialError
                | Some tok \<Rightarrow>
                    Inr \<lparr> connection_fields = str_split s, held_credential = tok \<rparr>))"

text \<open>
  What a construction cell leaves: the client it bound and the success line, or the
  exception it caught and printed.
\<close>

datatype 'c construction = Initialized 'c | PrintedError error

text \<open>
  The cell of 2-environment_setup.ipynb, with the SDK operation as a parameter:
  \<^verbatim>\<open>
    try:
        client = AIProjectClient.from_connection_string(
            conn_str=os.getenv("PROJECT_CONNECTION_STRING"), credential=credential)
        print("... Successfully initialized AIProjectClient")
    except Exception as e:
        print(f"... Error initializing client: {str(e)}")
  \<close>
\<close>

definition initialize_client ::
  "(pystr option \<Rightarrow> 'cred \<Rightarrow> error + 'c) \<Rightarrow> environ \<Rightarrow> 'cred \<Rightarrow> 'c construction"
where
  "initialize_client sdk_construct env cred =
     (case sdk_construct (os_getenv env ''PROJECT_CONNECTION_STRING'') cred of
        Inl e \<Rightarrow> PrintedError e
      | Inr client \<Rightarrow> Initialized client)"

text \<open>
  The cell of 2-embeddings.ipynb, which passes the loaded \<^verbatim>\<open>PROJECT_CONNECTION_STRING\<close>
  (a string in every case) inside the same \<^verbatim>\<open>try\<close>/\<^verbatim>\<open>except\<close>.
\<close>

definition create_project_client ::
  "(pystr option \<Rightarrow> 'cred \<Rightarrow> error + 'c) \<Rightarrow> embeddings_settings \<Rightarrow> 'cred \<Rightarrow> 'c construction"
where
  "create_project_client sdk_construct settings cred =
     (case sdk_construct (Some (PROJECT_CONNECTION_STRING settings)) cred of
        Inl e \<Rightarrow> PrintedError e
      | Inr client \<Rightarrow> Initialized client)"


section \<open>Facts about the connection string\<close>

lemma str_split_no_separator:
  assumes "semicolon \<notin> set s"
  shows "str_split s = [s]"
proof -
  from assms have t: "takeWhile (\<lambda>c. c \<noteq> semicolon) s = s" by (induction s) auto
  from assms have d: "dropWhile (\<lambda>c. c \<noteq> semicolon) s = []" by (induction s) auto
  show ?thesis by (subst str_split.simps) (simp only: t d list.case)
qed

lemma str_split_first_field:
  assumes "semicolon \<notin> set f"
  shows "str_split (f @ semicolon # r) = f # str_split r"
proof -
  from assms have t: "takeWhile (\<lambda>c. c \<noteq> semicolon) (f @ semicolon # r) = f"
    by (induction f) auto
  from assms have d: "dropWhile (\<lambda>c. c \<noteq> semicolon) (f @ semicolon # r) = semicolon # r"
    by (induction f) auto
  show ?thesis by (subst str_split.simps) (simp only: t d list.case)
qed

lemma str_split_join:
  "parts \<noteq> [] \<Longrightarrow> \<forall>f\<in>set parts. semicolon \<notin> set f \<Longrightarrow> str_split (join parts) = parts"
proof (induction parts rule: join.induct)
  case 1
  then show ?case by simp
next
  case (2 f)
  then show ?case by (simp add: str_split_no_separator)
next
  case (3 f g fs)
  then show ?case by (simp add: str_split_first_field)
qed

lemma join_two_nonempty: "2 \<le> length parts \<Longrightarrow> join parts \<noteq> []"
  by (induction parts rule: join.induct) auto

lemma subscription_id_join:
  assumes "2 \<le> length parts" and "\<forall>f\<in>set parts. semicolon \<notin> set f"
  shows "subscription_id (Some (join parts)) = Inr (Some (parts ! 1))"
proof -
  from assms(1) have ne: "parts \<noteq> []" by auto
  have "str_split (join parts) = parts" using str_split_join[OF ne assms(2)] .
  moreover have "py_index parts 1 = Inr (parts ! 1)"
    using assms(1) by (simp add: py_index_def in_range_def)
  ultimately show ?thesis
    using join_two_nonempty[OF assms(1)] by (simp add: subscription_id_def)
qed

lemma subscription_id_no_separator:
  "s \<noteq> [] \<Longrightarrow> semicolon \<notin> set s \<Longrightarrow> subscription_id (Some s) = Inl IndexError"
  by (simp add: subscription_id_def str_split_no_separator py_index_def in_range_def)

text \<open>
  C4. For a connection string made of at least two semicolon-delimited fields, none of
  which contains the separator, the extracted subscription identifier is the field at
  index 1; two such strings that agree on that field give the same identifier, whatever
  their other fields are.
\<close>

theorem subscription_id_is_second_field:
  assumes "2 \<le> length parts" and "\<forall>f\<in>set parts. semicolon \<notin> set f"
  shows "subscription_id (Some (join parts)) = Inr (Some (parts ! 1)) \<and>
         (\<forall>others. 2 \<le> length others \<and> (\<forall>f\<in>set others. semicolon \<notin> set f) \<and>
                   others ! 1 = parts ! 1 \<longrightarrow>
            subscription_id (Some (join others)) = subscription_id (Some (join parts)))"
  using assms by (simp add: subscription_id_join)

theorem subscription_id_is_second_field_witness:
  "2 \<le> length [str ''eastus.api.azureml.ms'', str ''1f2e3d4c'', str ''rg-workshop'', str ''proj'']
   \<and> list_all (\<lambda>f. semicolon \<notin> set f)
         [str ''eastus.api.azureml.ms'', str ''1f2e3d4c'', str ''rg-workshop'', str ''proj'']
   \<and> subscription_id (Some (str ''eastus.api.azureml.ms;1f2e3d4c;rg-workshop;proj''))
       = Inr (Some (str ''1f2e3d4c''))"
proof -
  have h: "2 \<le> length [str ''eastus.api.azureml.ms'', str ''1f2e3d4c'', str ''rg-workshop'', str ''proj'']"
    "\<forall>f\<in>set [str ''eastus.api.azureml.ms'', str ''1f2e3d4c'', str ''rg-workshop'', str ''proj''].
         semicolon \<notin> set f"
    by (simp_all add: str_def semicolon_def)
  have j: "join [str ''eastus.api.azureml.ms'', str ''1f2e3d4c'', str ''rg-workshop'', str ''proj'']
      = str ''eastus.api.azureml.ms;1f2e3d4c;rg-workshop;proj''"
    by (simp add: str_def semicolon_def)
  from subscription_id_is_second_field[OF h] j h show ?thesis by (simp add: list_all_iff)
qed

text \<open>
  The helper of 1-authentication.ipynb builds no client. On a non-empty connection
  string without a semicolon it raises \<^verbatim>\<open>IndexError\<close>, while the absent and the empty
  connection string end in the printed warning.
\<close>

lemma set_subscription_no_separator:
  "set_subscription (Some (str ''eastus.api.azureml.ms'')) = Inl IndexError \<and>
   set_subscription None = Inr SubscriptionMissing \<and>
   set_subscription (Some []) = Inr SubscriptionMissing"
proof -
  have "subscription_id (Some (str ''eastus.api.azureml.ms'')) = Inl IndexError"
    by (rule subscription_id_no_separator) (simp_all add: str_def semicolon_def)
  then show ?thesis by (simp add: set_subscription_def subscription_id_def)
qed


section \<open>Facts about building the project client\<close>

lemma from_connection_string_malformed:
  "length (str_split s) < required \<Longrightarrow>
   from_connection_string required (Some s) cred = Inl ConfigurationError"
  by (simp add: from_connection_string_def)

lemma no_separator_too_few_fields:
  "semicolon \<notin> set s \<Longrightarrow> 2 \<le> required \<Longrightarrow> length (str_split s) < required"
  by (simp add: str_split_no_separator)

text \<open>
  C2. For a connection string with fewer than the required number of semicolon-delimited
  fields, and so for a string without a semicolon when two or more fields are required,
  construction fails with the configuration error, whatever the credential. The two
  construction cells then end in that error, caught and printed, so no index or
  null-reference failure leaves them.
\<close>

theorem malformed_connection_string_is_configuration_error:
  assumes "length (str_split s) < required \<or> (semicolon \<notin> set s \<and> 2 \<le> required)"
  shows "from_connection_string required (Some s) cred = Inl ConfigurationError \<and>
         (env ''PROJECT_CONNECTION_STRING'' = Some s \<longrightarrow>
            initialize_client (from_connection_string required) env cred
              = PrintedError ConfigurationError) \<and>
         (PROJECT_CONNECTION_STRING settings = s \<longrightarrow>
            create_project_client (from_connection_string required) settings cred
              = PrintedError ConfigurationError)"
proof -
  from assms have "length (str_split s) < required"
    using no_separator_too_few_fields by blast
  then have "from_connection_string required (Some s) cred = Inl ConfigurationError"
    by (rule from_connection_string_malformed)
  then show ?thesis
    by (simp add: initialize_client_def create_project_client_def os_getenv_def)
qed

theorem malformed_connection_string_is_configuration_error_witness:
  "semicolon \<notin> set (str ''eastus.api.azureml.ms'') \<and> (2::nat) \<le> 4 \<and>
   from_connection_string 4 (Some (str ''eastus.api.azureml.ms''))
       (Some \<lparr>bearer = str ''tok-cli'', expiry = 3600\<rparr>)
     = Inl ConfigurationError \<and>
   initialize_client (from_connection_string 4)
       (map_of [(''PROJECT_CONNECTION_STRING'', str ''eastus.api.azureml.ms'')])
       (Some \<lparr>bearer = str ''tok-cli'', expiry = 3600\<rparr>)
     = PrintedError ConfigurationError \<and>
   create_project_client (from_connection_string 4)
       \<lparr> PROJECT_CONNECTION_STRING = str ''eastus.api.azureml.ms'',
         TEXT_EMBEDDING_MODEL = str ''text-embedding-3-large'',
         IMAGE_EMBEDDING_MODEL = str ''Cohere-embed-v3-english'' \<rparr>
       (Some \<lparr>bearer = str ''tok-cli'', expiry = 3600\<rparr>)
     = PrintedError ConfigurationError"
proof -
  have n: "semicolon \<notin> set (str ''eastus.api.azureml.ms'')"
    by (simp add: str_def semicolon_def)
  then have h: "length (str_split (str ''eastus.api.azureml.ms'')) < 4 \<or>
      (semicolon \<notin> set (str ''eastus.api.azureml.ms'') \<and> (2::nat) \<le> 4)"
    by simp
  from n malformed_connection_string_is_configuration_error
      [OF h, of "Some \<lparr>bearer = str ''tok-cli'', expiry = 3600\<rparr>"
          "map_of [(''PROJECT_CONNECTION_STRING'', str ''eastus.api.azureml.ms'')]"
          "\<lparr> PROJECT_CONNECTION_STRING = str ''eastus.api.azureml.ms'',
             TEXT_EMBEDDING_MODEL = str ''text-embedding-3-large'',
             IMAGE_EMBEDDING_MODEL = str ''Cohere-embed-v3-english'' \<rparr>"]
  show ?thesis by simp
qed


section \<open>Facts about environment loading\<close>

text \<open>
  C3, as the code has it. For every environment the loading steps end without an error.
  An absent \<^verbatim>\<open>PROJECT_CONNECTION_STRING\<close>, \<^verbatim>\<open>TEXT_EMBEDDING_MODEL\<close> or
  \<^verbatim>\<open>IMAGE_EMBEDDING_MODEL\<close> is replaced by its fixed default, an absent
  \<^verbatim>\<open>AZURE_INFERENCE_ENDPOINT\<close>, \<^verbatim>\<open>AZURE_INFERENCE_KEY\<close> or \<^verbatim>\<open>MODEL_NAME\<close> is read as
  \<^verbatim>\<open>None\<close>, and a variable that is present is read as its value.
\<close>

theorem environment_loading_never_fails:
  "load_embeddings_settings env = Inr
     \<lparr> PROJECT_CONNECTION_STRING =
         (case env ''PROJECT_CONNECTION_STRING'' of
            None \<Rightarrow> str ''<your-connection-string>'' | Some v \<Rightarrow> v),
       TEXT_EMBEDDING_MODEL =
         (case env ''TEXT_EMBEDDING_MODEL'' of
            None \<Rightarrow> str ''text-embedding-3-large'' | Some v \<Rightarrow> v),
       IMAGE_EMBEDDING_MODEL =
         (case env ''IMAGE_EMBEDDING_MODEL'' of
            None \<Rightarrow> str ''Cohere-embed-v3-english'' | Some v \<Rightarrow> v) \<rparr> \<and>
   load_inference_settings env = Inr
     \<lparr> endpoint = env ''AZURE_INFERENCE_ENDPOINT'',
       key = env ''AZURE_INFERENCE_KEY'',
       model_name = env ''MODEL_NAME'' \<rparr>"
  by (simp add: load_embeddings_settings_def load_inference_settings_def os_environ_get_def
        os_getenv_def)

text \<open>
  C3 as stated fails on the empty environment: every required variable is absent, and
  both loading steps return settings instead of an error.
\<close>

theorem environment_loading_counterexample:
  "\<not> isl (load_embeddings_settings (map_of [])) \<and>
   load_embeddings_settings (map_of []) = Inr
     \<lparr> PROJECT_CONNECTION_STRING = str ''<your-connection-string>'',
       TEXT_EMBEDDING_MODEL = str ''text-embedding-3-large'',
       IMAGE_EMBEDDING_MODEL = str ''Cohere-embed-v3-english'' \<rparr> \<and>
   \<not> isl (load_inference_settings (map_of [])) \<and>
   load_inference_settings (map_of []) = Inr \<lparr> endpoint = None, key = None, model_name = None \<rparr>"
  by (simp add: load_embeddings_settings_def load_inference_settings_def os_environ_get_def
        os_getenv_def)


section \<open>Facts about the reasoning split\<close>

text \<open>
  A marker whose first code point does not occur again in it cannot overlap a later copy
  of itself; both markers are of this kind, and neither starts or ends with whitespace.
\<close>

lemma no_overlap:
  assumes "m \<noteq> []" and "hd m \<notin> set (tl m)" and "x \<noteq> []" and "prefix m (x @ m @ y)"
  shows "prefix m x"
proof -
  from assms(4) have "prefix m x \<or> (\<exists>us. m = x @ us \<and> prefix us (m @ y))"
    by (simp only: prefix_append)
  then consider "prefix m x" | us where "m = x @ us" and "prefix us (m @ y)"
    by blast
  then show ?thesis
  proof cases
    case 1
    then show ?thesis .
  next
    case 2
    show ?thesis
    proof (cases us)
      case Nil
      with 2 show ?thesis by simp
    next
      case (Cons u us')
      with 2(2) assms(1) have "u = hd m" by (cases m) auto
      moreover from 2(1) Cons assms(3) have "u \<in> set (tl m)" by (cases x) auto
      ultimately show ?thesis using assms(2) by simp
    qed
  qed
qed

lemma think_close_unbordered: "think_close \<noteq> [] \<and> hd think_close \<notin> set (tl think_close)"
  by (simp add: think_close_def str_def)

lemma think_open_unbordered: "think_open \<noteq> [] \<and> hd think_open \<notin> set (tl think_open)"
  by (simp add: think_open_def str_def)

lemma lazy_group_sound: "lazy_group s = Some (g1, g2) \<Longrightarrow> s = g1 @ think_close @ g2"
proof (induction s arbitrary: g1)
  case Nil
  then show ?case by simp
next
  case (Cons c cs)
  show ?case
  proof (cases "prefix think_close (c # cs)")
    case True
    with Cons.prems have "g1 = []" and "g2 = drop (length think_close) (c # cs)" by auto
    with True show ?thesis by (auto simp: prefix_def)
  next
    case False
    with Cons.prems obtain h where "lazy_group cs = Some (h, g2)" and "g1 = c # h"
      by (auto split: prod.splits)
    with Cons.IH show ?thesis by simp
  qed
qed

lemma lazy_group_first:
  "\<not> sublist think_close x \<Longrightarrow> lazy_group (x @ think_close @ y) = Some (x, y)"
proof (induction x)
  case Nil
  have "think_close @ y \<noteq> []" using think_close_unbordered by simp
  then obtain c cs where "think_close @ y = c # cs" by (cases "think_close @ y") auto
  note e = this
  have "prefix think_close (c # cs)" using e by (metis prefixI)
  then have "lazy_group (c # cs) = Some ([], drop (length think_close) (c # cs))" by simp
  moreover have "drop (length think_close) (c # cs) = y" using e by (metis append_eq_conv_conj)
  ultimately show ?case using e by simp
next
  case (Cons c x)
  have "\<not> prefix think_close ((c # x) @ think_close @ y)"
  proof
    assume "prefix think_close ((c # x) @ think_close @ y)"
    then have "prefix think_close (c # x)"
      using no_overlap[of think_close "c # x" y] think_close_unbordered by simp
    then have "sublist think_close (c # x)" by (rule prefix_imp_sublist)
    with Cons.prems show False by simp
  qed
  moreover from Cons.prems have "\<not> sublist think_close x"
    by (auto simp: sublist_Cons_right)
  ultimately show ?case using Cons.IH by simp
qed

lemma match_at_sound: "match_at s = Some (g1, g2) \<Longrightarrow> s = think_open @ g1 @ think_close @ g2"
  by (auto simp: match_at_def prefix_def split: if_splits dest: lazy_group_sound)

lemma re_search_sound:
  "re_search s = Some (g1, g2) \<Longrightarrow> \<exists>p. s = p @ think_open @ g1 @ think_close @ g2"
proof (induction s)
  case Nil
  then show ?case by simp
next
  case (Cons c cs)
  show ?case
  proof (cases "match_at (c # cs)")
    case None
    with Cons.prems have "re_search cs = Some (g1, g2)" by simp
    with Cons.IH obtain p where "cs = p @ think_open @ g1 @ think_close @ g2" by blast
    then have "c # cs = (c # p) @ think_open @ g1 @ think_close @ g2" by simp
    then show ?thesis by blast
  next
    case (Some m)
    with Cons.prems have "match_at (c # cs) = Some (g1, g2)" by simp
    then have "c # cs = [] @ think_open @ g1 @ think_close @ g2"
      by (simp add: match_at_sound)
    then show ?thesis by blast
  qed
qed

lemma match_at_open:
  "\<not> sublist think_close x \<Longrightarrow> match_at (think_open @ x @ think_close @ y) = Some (x, y)"
  by (simp add: match_at_def lazy_group_first)

lemma re_search_first:
  assumes "\<not> sublist think_open p" and "\<not> sublist think_close x"
  shows "re_search (p @ think_open @ x @ think_close @ y) = Some (x, y)"
  using assms(1)
proof (induction p)
  case Nil
  have "think_open @ x @ think_close @ y \<noteq> []" using think_open_unbordered by simp
  then obtain c cs where e: "think_open @ x @ think_close @ y = c # cs"
    by (cases "think_open @ x @ think_close @ y") auto
  have "match_at (c # cs) = Some (x, y)" using match_at_open[OF assms(2), of y] e by simp
  then show ?case using e by simp
next
  case (Cons c p)
  have "\<not> prefix think_open ((c # p) @ think_open @ (x @ think_close @ y))"
  proof
    assume "prefix think_open ((c # p) @ think_open @ (x @ think_close @ y))"
    then have "prefix think_open (c # p)"
      using no_overlap[of think_open "c # p" "x @ think_close @ y"] think_open_unbordered by simp
    then have "sublist think_open (c # p)" by (rule prefix_imp_sublist)
    with Cons.prems show False by simp
  qed
  then have "match_at (c # p @ think_open @ x @ think_close @ y) = None"
    by (simp add: match_at_def)
  moreover from Cons.prems have "\<not> sublist think_open p"
    by (auto simp: sublist_Cons_right)
  ultimately show ?case using Cons.IH by simp
qed

lemma strip_keeps_marker:
  assumes "m \<noteq> []" and "\<not> isspace (hd m)" and "\<not> isspace (last m)" and "sublist m y"
  shows "sublist m (strip y)"
proof -
  have front: "sublist m (dropWhile isspace z)" if "sublist m z" for z
  proof -
    from that obtain a b where z: "z = a @ m @ b" by (auto simp: sublist_def)
    show ?thesis
    proof (cases "\<forall>c\<in>set a. isspace c")
      case True
      then have "dropWhile isspace z = dropWhile isspace (m @ b)" by (simp add: z dropWhile_append)
      also have "\<dots> = m @ b" using assms(1,2) by (cases m) auto
      finally show ?thesis by simp
    next
      case False
      then have "dropWhile isspace z = dropWhile isspace a @ m @ b"
        by (auto simp: z dropWhile_append)
      then show ?thesis by (auto simp: sublist_def)
    qed
  qed
  have rear: "sublist m (rev (dropWhile isspace (rev z)))" if "sublist m z" for z
  proof -
    from that obtain a b where z: "z = a @ m @ b" by (auto simp: sublist_def)
    show ?thesis
    proof (cases "\<forall>c\<in>set b. isspace c")
      case True
      then have "dropWhile isspace (rev z) = dropWhile isspace (rev m @ rev a)"
        by (simp add: z dropWhile_append)
      also have "\<dots> = rev m @ rev a" using assms(1,3) by (cases m rule: rev_cases) auto
      finally have "rev (dropWhile isspace (rev z)) = a @ m @ []" by simp
      then show ?thesis unfolding sublist_def by blast
    next
      case False
      then have "dropWhile isspace (rev z) = dropWhile isspace (rev b) @ rev m @ rev a"
        by (auto simp: z dropWhile_append)
      then show ?thesis by (auto simp: sublist_def)
    qed
  qed
  show ?thesis unfolding strip_def using rear[OF front[OF assms(4)]] .
qed

lemma think_close_no_space: "\<not> isspace (hd think_close) \<and> \<not> isspace (last think_close)"
  by (simp add: think_close_def str_def isspace_def)


lemma lazy_group_complete: "lazy_group (x @ think_close @ y) \<noteq> None"
proof (induction x)
  case Nil
  have "lazy_group ([] @ think_close @ y) = Some ([], y)"
    by (rule lazy_group_first) (use think_close_unbordered in auto)
  then show ?case by simp
next
  case (Cons c x)
  then show ?case by auto
qed

lemma re_search_complete: "re_search (p @ think_open @ x @ think_close @ y) \<noteq> None"
proof (induction p)
  case Nil
  have ne: "think_open @ x @ think_close @ y \<noteq> []" using think_open_unbordered by simp
  then obtain c cs where e: "think_open @ x @ think_close @ y = c # cs"
    by (cases "think_open @ x @ think_close @ y") auto
  have "match_at (think_open @ x @ think_close @ y) \<noteq> None"
    by (simp add: match_at_def lazy_group_complete)
  then have "re_search (c # cs) \<noteq> None" using e by (auto split: option.splits)
  then show ?case using e by simp
next
  case (Cons c p)
  then show ?case by (auto split: option.splits)
qed

text \<open>
  C1, as the code has it. For a response \<^verbatim>\<open><think>\<close> X \<^verbatim>\<open></think>\<close> Y in which X holds no
  closing marker, the split returns the stripped X as the thinking and the stripped Y as
  the answer. For a response that holds no opening marker with a closing marker
  somewhere after it (an opening marker alone too), the whole text is returned, as plain
  content with no thinking segment.
\<close>

theorem reasoning_split_single_block:
  "(\<not> sublist think_close X \<longrightarrow>
      extract_reasoning (think_open @ X @ think_close @ Y) True = Reasoning (strip X) (strip Y)) \<and>
   ((\<nexists>P X' Y'. text = P @ think_open @ X' @ think_close @ Y') \<longrightarrow>
      extract_reasoning text True = Content text)"
proof (intro conjI impI)
  assume "\<not> sublist think_close X"
  then have "re_search ([] @ think_open @ X @ think_close @ Y) = Some (X, Y)"
    by (intro re_search_first) (use think_open_unbordered in auto)
  then show "extract_reasoning (think_open @ X @ think_close @ Y) True = Reasoning (strip X) (strip Y)"
    by (simp add: extract_reasoning_def)
next
  assume none: "\<nexists>P X' Y'. text = P @ think_open @ X' @ think_close @ Y'"
  have "re_search text = None"
  proof (cases "re_search text")
    case None
    then show ?thesis .
  next
    case (Some groups)
    then obtain g1 g2 where "re_search text = Some (g1, g2)" by (cases groups) auto
    from re_search_sound[OF this] none show ?thesis by blast
  qed
  then show "extract_reasoning text True = Content text"
    by (simp add: extract_reasoning_def)
qed

theorem reasoning_split_single_block_witness:
  "\<not> sublist think_close (str '' weigh it '') \<and>
   extract_reasoning (think_open @ str '' weigh it '' @ think_close @ str '' Kyoto '') True
     = Reasoning (str ''weigh it'') (str ''Kyoto'') \<and>
   (\<nexists>P X' Y'. str ''<think>never closed'' = P @ think_open @ X' @ think_close @ Y') \<and>
   extract_reasoning (str ''<think>never closed'') True = Content (str ''<think>never closed'')"
proof -
  have a: "\<not> sublist think_close (str '' weigh it '')"
    by (simp add: think_close_def str_def sublist_Cons_right)
  have s: "strip (str '' weigh it '') = str ''weigh it''" "strip (str '' Kyoto '') = str ''Kyoto''"
    by (simp_all add: strip_def str_def isspace_def)
  have n: "re_search (str ''<think>never closed'') = None"
    by (simp add: str_def match_at_def think_open_def think_close_def)
  have b: "\<nexists>P X' Y'. str ''<think>never closed'' = P @ think_open @ X' @ think_close @ Y'"
    using re_search_complete n by metis
  show ?thesis
    using a b s
      reasoning_split_single_block[of "str '' weigh it ''" "str '' Kyoto ''" "str ''<think>never closed''"]
    by simp
qed

text \<open>
  C1 as stated fails when X itself holds a closing marker: with X = \<^verbatim>\<open>a</think>b\<close> and
  Y = \<^verbatim>\<open>c\<close> the thinking is \<^verbatim>\<open>a\<close> and the answer \<^verbatim>\<open>b</think>c\<close>.
\<close>

theorem reasoning_split_counterexample:
  "extract_reasoning (think_open @ str ''a</think>b'' @ think_close @ str ''c'') True
     = Reasoning (str ''a'') (str ''b</think>c'') \<and>
   Reasoning (str ''a'') (str ''b</think>c'')
     \<noteq> Reasoning (strip (str ''a</think>b'')) (strip (str ''c''))"
  by (simp add: extract_reasoning_def str_def match_at_def think_open_def think_close_def
        strip_def isspace_def)

text \<open>
  C10. In a response whose first opening marker is followed by X, a closing marker, and
  a rest Y that holds a further closing marker, where X holds none, the thinking is the
  stripped X (the text up to the first closing marker) and the answer is the stripped
  Y, which still holds the later marker.
\<close>

theorem reasoning_split_non_greedy:
  assumes "\<not> sublist think_open P" and "\<not> sublist think_close X" and "sublist think_close Y"
  shows "extract_reasoning (P @ think_open @ X @ think_close @ Y) True
           = Reasoning (strip X) (strip Y) \<and>
         sublist think_close (strip Y)"
proof
  show "extract_reasoning (P @ think_open @ X @ think_close @ Y) True = Reasoning (strip X) (strip Y)"
    using re_search_first[OF assms(1,2)] by (simp add: extract_reasoning_def)
  show "sublist think_close (strip Y)"
    using strip_keeps_marker[OF _ _ _ assms(3)] think_close_unbordered think_close_no_space
    by blast
qed

theorem reasoning_split_non_greedy_witness:
  "\<not> sublist think_open (str ''Sure. '') \<and> \<not> sublist think_close (str '' a '') \<and>
   sublist think_close (str '' b</think> c '') \<and>
   extract_reasoning (str ''Sure. '' @ think_open @ str '' a '' @ think_close @ str '' b</think> c '') True
     = Reasoning (str ''a'') (str ''b</think> c'') \<and>
   sublist think_close (strip (str '' b</think> c ''))"
proof -
  have h: "\<not> sublist think_open (str ''Sure. '')" "\<not> sublist think_close (str '' a '')"
    "sublist think_close (str '' b</think> c '')"
    by (simp_all add: think_open_def think_close_def str_def sublist_Cons_right)
  have s: "strip (str '' a '') = str ''a''" "strip (str '' b</think> c '') = str ''b</think> c''"
    by (simp_all add: strip_def str_def isspace_def)
  show ?thesis
    using h s reasoning_split_non_greedy[OF h] by simp
qed

text \<open>
  C9. With \<^verbatim>\<open>show_thinking=False\<close> the content is returned as it is, by the extraction
  step and by the whole call on any response whose first choice has that content; and
  a call that returns a thinking/answer pair was made with \<^verbatim>\<open>show_thinking=True\<close>.
\<close>

theorem show_thinking_off_returns_content:
  "extract_reasoning content False = Content content \<and>
   (client_complete (trip_request settings query) = Inr (content # rest) \<longrightarrow>
      plan_trip_with_reasoning client_complete settings query False = Inr (Content content)) \<and>
   (plan_trip_with_reasoning client_complete settings query show_thinking = Inr (Reasoning t a) \<longrightarrow>
      show_thinking)"
  by (auto simp: plan_trip_with_reasoning_def extract_reasoning_def py_index_def in_range_def
        split: sum.splits if_splits)

theorem show_thinking_off_returns_content_witness:
  "(\<lambda>r. Inr [str ''<think>a</think>b''])
      (trip_request \<lparr>endpoint = None, key = None, model_name = Some (str ''DeepSeek-R1'')\<rparr>
         (str ''Plan a 5-day cultural trip to Kyoto in April''))
     = (Inr (str ''<think>a</think>b'' # []) :: error + pystr list) \<and>
   plan_trip_with_reasoning (\<lambda>r. Inr [str ''<think>a</think>b''])
      \<lparr>endpoint = None, key = None, model_name = Some (str ''DeepSeek-R1'')\<rparr>
      (str ''Plan a 5-day cultural trip to Kyoto in April'') False
     = Inr (Content (str ''<think>a</think>b'')) \<and>
   plan_trip_with_reasoning (\<lambda>r. Inr [str ''<think>a</think>b''])
      \<lparr>endpoint = None, key = None, model_name = Some (str ''DeepSeek-R1'')\<rparr>
      (str ''Plan a 5-day cultural trip to Kyoto in April'') True
     = Inr (Reasoning (str ''a'') (str ''b''))"
proof -
  have t: "plan_trip_with_reasoning (\<lambda>r. Inr [str ''<think>a</think>b''])
      \<lparr>endpoint = None, key = None, model_name = Some (str ''DeepSeek-R1'')\<rparr>
      (str ''Plan a 5-day cultural trip to Kyoto in April'') True
     = Inr (Reasoning (str ''a'') (str ''b''))"
    by (simp add: plan_trip_with_reasoning_def extract_reasoning_def py_index_def in_range_def
          str_def match_at_def think_open_def think_close_def strip_def isspace_def)
  show ?thesis
    using t show_thinking_off_returns_content
      [of "str ''<think>a</think>b''" "\<lambda>r. Inr [str ''<think>a</think>b'']"
          "\<lparr>endpoint = None, key = None, model_name = Some (str ''DeepSeek-R1'')\<rparr>"
          "str ''Plan a 5-day cultural trip to Kyoto in April''" "[]" True
          "str ''a''" "str ''b''"]
    by simp
qed


section \<open>Facts about scoped sub-clients\<close>

lemma print_text_items_lifecycle:
  "lifecycle k (snd (print_text_items text_phrases items l)) = lifecycle k l"
  by (induction items arbitrary: l) (auto simp: lifecycle_def split: sum.splits)

lemma print_image_items_lifecycle:
  "lifecycle k (snd (print_image_items items l)) = lifecycle k l"
  by (induction items arbitrary: l) (auto simp: lifecycle_def split: sum.splits)

lemma with_client_lifecycle:
  assumes "\<And>l'. lifecycle (kind c) (snd (body c l')) = lifecycle (kind c) l'"
  shows "lifecycle (kind c) (snd (with_client (Inr c) body l))
           = lifecycle (kind c) l @ [Acquired (kind c), Released (kind c)]"
proof -
  obtain outcome l' where b: "body c (l @ [Acquired (kind c)]) = (outcome, l')"
    by (cases "body c (l @ [Acquired (kind c)])")
  with assms[of "l @ [Acquired (kind c)]"]
  have "lifecycle (kind c) l' = lifecycle (kind c) (l @ [Acquired (kind c)])" by simp
  with b show ?thesis by (simp add: with_client_def lifecycle_def)
qed

lemma with_client_outcome:
  "fst (with_client (Inr c) body l) = fst (body c (l @ [Acquired (kind c)]))"
  by (simp add: with_client_def split: prod.splits)

lemma with_client_not_acquired: "with_client (Inl e) body l = (Inl e, l)"
  by (simp add: with_client_def)

lemma try_except_print_lifecycle:
  "lifecycle k (snd (try_except_print body l)) = lifecycle k (snd (body l))"
  by (auto simp: try_except_print_def lifecycle_def split: prod.splits sum.splits)

lemma text_embeddings_cell_releases_once:
  "lifecycle (kind c) (snd (text_embeddings_cell (Inr c) settings text_phrases l))
     = lifecycle (kind c) l @ [Acquired (kind c), Released (kind c)]"
  unfolding text_embeddings_cell_def try_except_print_lifecycle
  by (rule with_client_lifecycle) (simp add: print_text_items_lifecycle split: sum.splits)

lemma image_embeddings_cell_releases_once:
  "lifecycle (kind c) (snd (image_embeddings_cell (Inr c) load settings l))
     = lifecycle (kind c) l @ [Acquired (kind c), Released (kind c)]"
  unfolding image_embeddings_cell_def try_except_print_lifecycle
  by (rule with_client_lifecycle) (simp add: print_image_items_lifecycle split: sum.splits)

lemma embed_with_template_releases_once:
  "lifecycle (kind c) (snd (embed_with_template (Inr c) settings user_text l))
     = lifecycle (kind c) l @ [Acquired (kind c), Released (kind c)]"
proof -
  let ?body = "\<lambda>embed_client l'.
     (embed embed_client (TEXT_EMBEDDING_MODEL settings) [TEMPLATE_SYSTEM @ str '' '' @ user_text], l')"
  have "snd (embed_with_template (Inr c) settings user_text l) = snd (with_client (Inr c) ?body l)"
    by (simp add: embed_with_template_def split: prod.splits sum.splits)
  moreover have "lifecycle (kind c) (snd (with_client (Inr c) ?body l))
      = lifecycle (kind c) l @ [Acquired (kind c), Released (kind c)]"
    by (rule with_client_lifecycle) simp
  ultimately show ?thesis by simp
qed

lemma cells_without_acquisition:
  "lifecycle k (snd (text_embeddings_cell (Inl e) settings text_phrases l)) = lifecycle k l"
  "lifecycle k (snd (embed_with_template (Inl e) settings user_text l)) = lifecycle k l"
  "lifecycle k (snd (image_embeddings_cell (Inl e) load settings l)) = lifecycle k l"
  by (simp_all add: text_embeddings_cell_def embed_with_template_def image_embeddings_cell_def
        try_except_print_def with_client_def lifecycle_def)

text \<open>
  C7. In each of the three places that acquire a scoped sub-client (the text embeddings
  cell, \<^verbatim>\<open>embed_with_template\<close> and the image embeddings cell), for every sub-client
  handed out and every behaviour of its \<^verbatim>\<open>embed\<close> call, of the image loading and of the
  loop over the response (return or exception), the run adds to the sub-client's
  lifecycle exactly one acquisition followed by exactly one release; and when obtaining
  the sub-client itself raises, nothing is acquired and nothing is released.
\<close>

theorem scoped_clients_released_exactly_once:
  "lifecycle (kind c) (snd (text_embeddings_cell (Inr c) settings text_phrases l))
     = lifecycle (kind c) l @ [Acquired (kind c), Released (kind c)] \<and>
   lifecycle (kind c) (snd (embed_with_template (Inr c) settings user_text l))
     = lifecycle (kind c) l @ [Acquired (kind c), Released (kind c)] \<and>
   lifecycle (kind ic) (snd (image_embeddings_cell (Inr ic) load settings l))
     = lifecycle (kind ic) l @ [Acquired (kind ic), Released (kind ic)] \<and>
   lifecycle k (snd (text_embeddings_cell (Inl e) settings text_phrases l)) = lifecycle k l \<and>
   lifecycle k (snd (embed_with_template (Inl e) settings user_text l)) = lifecycle k l \<and>
   lifecycle k (snd (image_embeddings_cell (Inl e) load settings l)) = lifecycle k l"
  by (simp add: text_embeddings_cell_releases_once embed_with_template_releases_once
        image_embeddings_cell_releases_once cells_without_acquisition)

text \<open>
  The exits of the text cell by an exception of the call, by an exception inside the
  loop, and by normal return, and the exit of \<^verbatim>\<open>embed_with_template\<close> by an exception that
  nothing catches.
\<close>

theorem scoped_clients_released_exactly_once_witness:
  "text_embeddings_cell
      (Inr (Client EmbeddingsClient (\<lambda>m i. Inl (SdkError ''quota exceeded''))))
      \<lparr> PROJECT_CONNECTION_STRING = str ''h;s;g;p'',
        TEXT_EMBEDDING_MODEL = str ''text-embedding-3-large'',
        IMAGE_EMBEDDING_MODEL = str ''Cohere-embed-v3-english'' \<rparr>
      [str ''Mindful breathing exercises''] []
     = (Inr (), [Acquired EmbeddingsClient, Released EmbeddingsClient, Printed]) \<and>
   text_embeddings_cell
      (Inr (Client EmbeddingsClient
         (\<lambda>m i. Inr [\<lparr>index = 0, embedding = [FloatEntry 1, FloatEntry 2]\<rparr>,
                      \<lparr>index = 1, embedding = [StrEntry 65, StrEntry 66]\<rparr>])))
      \<lparr> PROJECT_CONNECTION_STRING = str ''h;s;g;p'',
        TEXT_EMBEDDING_MODEL = str ''text-embedding-3-large'',
        IMAGE_EMBEDDING_MODEL = str ''Cohere-embed-v3-english'' \<rparr>
      [str ''Mindful breathing exercises'', str ''An apple a day''] []
     = (Inr (), [Acquired EmbeddingsClient, Printed, Released EmbeddingsClient, Printed]) \<and>
   text_embeddings_cell
      (Inr (Client EmbeddingsClient
         (\<lambda>m i. Inr [\<lparr>index = 0, embedding = [FloatEntry 1, FloatEntry 2]\<rparr>])))
      \<lparr> PROJECT_CONNECTION_STRING = str ''h;s;g;p'',
        TEXT_EMBEDDING_MODEL = str ''text-embedding-3-large'',
        IMAGE_EMBEDDING_MODEL = str ''Cohere-embed-v3-english'' \<rparr>
      [str ''Mindful breathing exercises''] []
     = (Inr (), [Acquired EmbeddingsClient, Printed, Released EmbeddingsClient]) \<and>
   embed_with_template
      (Inr (Client EmbeddingsClient (\<lambda>m i. Inl (SdkError ''quota exceeded''))))
      \<lparr> PROJECT_CONNECTION_STRING = str ''h;s;g;p'',
        TEXT_EMBEDDING_MODEL = str ''text-embedding-3-large'',
        IMAGE_EMBEDDING_MODEL = str ''Cohere-embed-v3-english'' \<rparr>
      (str ''quick home workout'') []
     = (Inl (SdkError ''quota exceeded''),
        [Acquired EmbeddingsClient, Released EmbeddingsClient])"
  using scoped_clients_released_exactly_once
      [of "Client EmbeddingsClient (\<lambda>m i. Inl (SdkError ''quota exceeded''))"
          "\<lparr> PROJECT_CONNECTION_STRING = str ''h;s;g;p'',
             TEXT_EMBEDDING_MODEL = str ''text-embedding-3-large'',
             IMAGE_EMBEDDING_MODEL = str ''Cohere-embed-v3-english'' \<rparr>"
          "[str ''Mindful breathing exercises'']" "[]"]
  by (simp add: text_embeddings_cell_def embed_with_template_def try_except_print_def
        with_client_def py_index_def in_range_def format_4f_def)


section \<open>Facts about credential resolution\<close>

lemma resolve_first_success:
  "k < length ss \<Longrightarrow> executor (ss ! k) () = Inr tok \<Longrightarrow> \<forall>j<k. isl (executor (ss ! j) ()) \<Longrightarrow>
   resolve ss = (Inr tok, map strategy_name (take (Suc k) ss))"
proof (induction ss arbitrary: k)
  case Nil
  then show ?case by simp
next
  case (Cons s ss)
  show ?case
  proof (cases k)
    case 0
    with Cons.prems show ?thesis by simp
  next
    case (Suc k')
    with Cons.prems have "isl (executor s ())" by auto
    then obtain failure where f: "executor s () = Inl failure" by (auto simp: isl_def)
    from Suc Cons.prems have "k' < length ss" and "executor (ss ! k') () = Inr tok"
      and "\<forall>j<k'. isl (executor (ss ! j) ())" by auto
    from Cons.IH[OF this] f Suc show ?thesis by simp
  qed
qed

lemma resolve_all_fail:
  "\<forall>s\<in>set ss. isl (executor s ()) \<Longrightarrow>
   resolve ss = (Inl (map (\<lambda>s. (strategy_name s, projl (executor s ()))) ss), map strategy_name ss)"
proof (induction ss)
  case Nil
  then show ?case by simp
next
  case (Cons s ss)
  then obtain failure where "executor s () = Inl failure" by (auto simp: isl_def)
  with Cons show ?case by simp
qed

text \<open>
  C5. If the strategy at position k is the first whose attempt succeeds, \<open>resolve\<close>
  returns that attempt's token, and the strategies it invoked are exactly the first
  k + 1 of the list, each once and in list order: none after the first success.
\<close>

theorem resolve_returns_first_success:
  assumes "k < length ss" and "executor (ss ! k) () = Inr tok"
    and "\<forall>j<k. isl (executor (ss ! j) ())"
  shows "fst (resolve ss) = Inr tok \<and> snd (resolve ss) = map strategy_name (take (Suc k) ss)"
  using resolve_first_success[OF assms] by simp

theorem resolve_returns_first_success_witness:
  "(1::nat) < length
      [\<lparr>strategy_name = ''environment'', executor = \<lambda>u. Inl ''variables not set''\<rparr>,
       \<lparr>strategy_name = ''cli'', executor = \<lambda>u. Inr \<lparr>bearer = str ''tok-cli'', expiry = 3600\<rparr>\<rparr>,
       \<lparr>strategy_name = ''browser'', executor = \<lambda>u. Inr \<lparr>bearer = str ''tok-web'', expiry = 60\<rparr>\<rparr>] \<and>
   isl (executor \<lparr>strategy_name = ''environment'', executor = \<lambda>u. Inl ''variables not set''\<rparr> ()) \<and>
   executor \<lparr>strategy_name = ''cli'', executor = \<lambda>u. Inr \<lparr>bearer = str ''tok-cli'', expiry = 3600\<rparr>\<rparr> ()
     = Inr \<lparr>bearer = str ''tok-cli'', expiry = 3600\<rparr> \<and>
   resolve
      [\<lparr>strategy_name = ''environment'', executor = \<lambda>u. Inl ''variables not set''\<rparr>,
       \<lparr>strategy_name = ''cli'', executor = \<lambda>u. Inr \<lparr>bearer = str ''tok-cli'', expiry = 3600\<rparr>\<rparr>,
       \<lparr>strategy_name = ''browser'', executor = \<lambda>u. Inr \<lparr>bearer = str ''tok-web'', expiry = 60\<rparr>\<rparr>]
     = (Inr \<lparr>bearer = str ''tok-cli'', expiry = 3600\<rparr>, [''environment'', ''cli''])"
proof -
  let ?ss = "[\<lparr>strategy_name = ''environment'', executor = \<lambda>u. Inl ''variables not set''\<rparr>,
       \<lparr>strategy_name = ''cli'', executor = \<lambda>u. Inr \<lparr>bearer = str ''tok-cli'', expiry = 3600\<rparr>\<rparr>,
       \<lparr>strategy_name = ''browser'', executor = \<lambda>u. Inr \<lparr>bearer = str ''tok-web'', expiry = 60\<rparr>\<rparr>]"
  have h1: "(1::nat) < length ?ss" by simp
  have h2: "executor (?ss ! 1) () = Inr \<lparr>bearer = str ''tok-cli'', expiry = 3600\<rparr>" by simp
  have h3: "\<forall>j<1::nat. isl (executor (?ss ! j) ())" by simp
  from resolve_returns_first_success[OF h1 h2 h3] h1
  show ?thesis by (simp add: prod_eq_iff)
qed

text \<open>
  C6. If the attempt of every strategy fails, \<open>resolve\<close> fails with the list of all
  per-strategy failures: one entry for each strategy of the list, in list order, made
  of the strategy's name and its own failure; and every strategy was invoked.
\<close>

theorem resolve_aggregates_every_failure:
  assumes "\<forall>s\<in>set ss. isl (executor s ())"
  shows "fst (resolve ss) = Inl (map (\<lambda>s. (strategy_name s, projl (executor s ()))) ss) \<and>
         snd (resolve ss) = map strategy_name ss"
  using resolve_all_fail[OF assms] by simp

theorem resolve_aggregates_every_failure_witness:
  "list_all (\<lambda>s. isl (executor s ()))
      [\<lparr>strategy_name = ''environment'', executor = \<lambda>u. Inl ''variables not set''\<rparr>,
       \<lparr>strategy_name = ''managed identity'', executor = \<lambda>u. Inl ''no endpoint''\<rparr>,
       \<lparr>strategy_name = ''cli'', executor = \<lambda>u. Inl ''not logged in''\<rparr>] \<and>
   resolve [\<lparr>strategy_name = ''environment'', executor = \<lambda>u. Inl ''variables not set''\<rparr>,
            \<lparr>strategy_name = ''managed identity'', executor = \<lambda>u. Inl ''no endpoint''\<rparr>,
            \<lparr>strategy_name = ''cli'', executor = \<lambda>u. Inl ''not logged in''\<rparr>]
     = (Inl [(''environment'', ''variables not set''), (''managed identity'', ''no endpoint''),
             (''cli'', ''not logged in'')],
        [''environment'', ''managed identity'', ''cli''])"
proof -
  let ?ss = "[\<lparr>strategy_name = ''environment'', executor = \<lambda>u. Inl ''variables not set''\<rparr>,
             \<lparr>strategy_name = ''managed identity'', executor = \<lambda>u. Inl ''no endpoint''\<rparr>,
             \<lparr>strategy_name = ''cli'', executor = \<lambda>u. Inl ''not logged in''\<rparr>]
             :: strategy list"
  have h: "\<forall>s\<in>set ?ss. isl (executor s ())" by simp
  from resolve_aggregates_every_failure[OF h] h
  show ?thesis by (simp add: prod_eq_iff)
qed


section \<open>Facts about listing connections\<close>

lemma list_connections_filter:
  "list_connections (Some t) cs = filter (\<lambda>c. conn_type c = t) cs"
  by (induction cs) auto

lemma list_connections_all: "list_connections None cs = cs"
  by (induction cs) auto

text \<open>
  C8. With a type filter, \<open>list_connections\<close> returns exactly the connections of that
  type, in their original order; when none has that type the result is the empty list;
  without a filter it returns all the connections.
\<close>

theorem list_connections_returns_matching:
  "list_connections (Some t) cs = filter (\<lambda>c. conn_type c = t) cs \<and>
   ((\<forall>c\<in>set cs. conn_type c \<noteq> t) \<longrightarrow> list_connections (Some t) cs = []) \<and>
   list_connections None cs = cs"
  by (simp add: list_connections_filter list_connections_all)

theorem list_connections_returns_matching_witness:
  "list_all (\<lambda>c. conn_type c \<noteq> AZURE_AI_SEARCH)
      [\<lparr>conn_id = str ''aoai-east'', conn_type = AZURE_OPEN_AI, credential = None\<rparr>,
       \<lparr>conn_id = str ''services'', conn_type = AZURE_AI_SERVICES, credential = Some (str ''k'')\<rparr>,
       \<lparr>conn_id = str ''aoai-west'', conn_type = AZURE_OPEN_AI, credential = None\<rparr>] \<and>
   list_connections (Some AZURE_AI_SEARCH)
      [\<lparr>conn_id = str ''aoai-east'', conn_type = AZURE_OPEN_AI, credential = None\<rparr>,
       \<lparr>conn_id = str ''services'', conn_type = AZURE_AI_SERVICES, credential = Some (str ''k'')\<rparr>,
       \<lparr>conn_id = str ''aoai-west'', conn_type = AZURE_OPEN_AI, credential = None\<rparr>] = [] \<and>
   list_connections (Some AZURE_OPEN_AI)
      [\<lparr>conn_id = str ''aoai-east'', conn_type = AZURE_OPEN_AI, credential = None\<rparr>,
       \<lparr>conn_id = str ''services'', conn_type = AZURE_AI_SERVICES, credential = Some (str ''k'')\<rparr>,
       \<lparr>conn_id = str ''aoai-west'', conn_type = AZURE_OPEN_AI, credential = None\<rparr>]
     = [\<lparr>conn_id = str ''aoai-east'', conn_type = AZURE_OPEN_AI, credential = None\<rparr>,
        \<lparr>conn_id = str ''aoai-west'', conn_type = AZURE_OPEN_AI, credential = None\<rparr>]"
  using list_connections_returns_matching
      [of AZURE_AI_SEARCH
          "[\<lparr>conn_id = str ''aoai-east'', conn_type = AZURE_OPEN_AI, credential = None\<rparr>,
            \<lparr>conn_id = str ''services'', conn_type = AZURE_AI_SERVICES, credential = Some (str ''k'')\<rparr>,
            \<lparr>conn_id = str ''aoai-west'', conn_type = AZURE_OPEN_AI, credential = None\<rparr>]"]
    list_connections_returns_matching
      [of AZURE_OPEN_AI
          "[\<lparr>conn_id = str ''aoai-east'', conn_type = AZURE_OPEN_AI, credential = None\<rparr>,
            \<lparr>conn_id = str ''services'', conn_type = AZURE_AI_SERVICES, credential = Some (str ''k'')\<rparr>,
            \<lparr>conn_id = str ''aoai-west'', conn_type = AZURE_OPEN_AI, credential = None\<rparr>]"]
  by simp

end
